theory Spec2Isabelle
  imports Main
begin

section \<open>Python values held by the tweak ledger\<close>

text \<open>
  The ledger of \<^verbatim>\<open>FrogOptimizer\<close> (src/optimizer.py) is dynamically typed: whatever
  \<^verbatim>\<open>json.load\<close> returns is stored in the attributes without a check. The values are
  therefore the ones \<^verbatim>\<open>json.load\<close> can return: \<^verbatim>\<open>None\<close>, booleans, integers,
  strings, lists and dictionaries with string keys. Numbers with a fraction or an
  exponent (Python floats) are left out of the model. A dictionary is an association
  list, a key being looked up at its first occurrence.
\<close>

datatype pyval =
    PNone
  | PBool bool
  | PInt int
  | PStr string
  | PList "pyval list"
  | PDict "(string \<times> pyval) list"

datatype error = OSError | JSONDecodeError | TypeError | AttributeError

text \<open>\<^verbatim>\<open>d.get(k, default)\<close> on a dictionary.\<close>

definition dict_get :: "(string \<times> pyval) list \<Rightarrow> string \<Rightarrow> pyval \<Rightarrow> pyval" where
  "dict_get d k dflt = (case map_of d k of None \<Rightarrow> dflt | Some v \<Rightarrow> v)"

text \<open>
  What \<^verbatim>\<open>set(v)\<close> and \<^verbatim>\<open>tuple(v)\<close> iterate over: the elements of a list, the
  one-character strings of a string, the keys of a dictionary; \<^verbatim>\<open>None\<close>, booleans
  and integers are not iterable (TypeError).
\<close>

fun py_iter :: "pyval \<Rightarrow> error + pyval list" where
  "py_iter (PList xs) = Inr xs"
| "py_iter (PStr s) = Inr (map (\<lambda>c. PStr [c]) s)"
| "py_iter (PDict d) = Inr (map (\<lambda>kv. PStr (fst kv)) d)"
| "py_iter v = Inl TypeError"

text \<open>Lists and dictionaries are unhashable, so they cannot be members of a set.\<close>

fun hashable :: "pyval \<Rightarrow> bool" where
  "hashable (PList xs) = False"
| "hashable (PDict d) = False"
| "hashable v = True"

text \<open>
  Python compares and hashes \<^verbatim>\<open>True\<close> as \<^verbatim>\<open>1\<close> and \<^verbatim>\<open>False\<close> as \<^verbatim>\<open>0\<close>:
  two hashable values are the same set member exactly when their keys agree.
\<close>

fun py_key :: "pyval \<Rightarrow> pyval" where
  "py_key (PBool b) = PInt (if b then 1 else 0)"
| "py_key v = v"

text \<open>
  A Python set is the list of its members, each kept as it was first inserted; no two
  members have the same key. Python leaves the iteration order of a set open; the model
  fixes insertion order. Two sets are the same when their lists are; no theorem below
  depends on the order chosen.
\<close>

definition py_set_add :: "pyval \<Rightarrow> pyval list \<Rightarrow> pyval list" where
  "py_set_add x s = (if py_key x \<in> set (map py_key s) then s else s @ [x])"

fun set_of_list :: "pyval list \<Rightarrow> pyval list \<Rightarrow> error + pyval list" where
  "set_of_list [] acc = Inr acc"
| "set_of_list (x # xs) acc =
     (if hashable x then set_of_list xs (py_set_add x acc) else Inl TypeError)"

definition py_set :: "pyval \<Rightarrow> error + pyval list" where
  "py_set v = (case py_iter v of Inl e \<Rightarrow> Inl e | Inr xs \<Rightarrow> set_of_list xs [])"

definition pyset_inv :: "pyval list \<Rightarrow> bool" where
  "pyset_inv s = (list_all hashable s \<and> distinct (map py_key s))"

text \<open>\<^verbatim>\<open>v.append(x)\<close>: only a list has the method.\<close>

fun py_append :: "pyval \<Rightarrow> pyval \<Rightarrow> error + pyval" where
  "py_append (PList xs) x = Inr (PList (xs @ [x]))"
| "py_append v x = Inl AttributeError"

text \<open>\<^verbatim>\<open>v.clear()\<close>: lists and dictionaries have the method, the other values do not.\<close>

fun py_clear :: "pyval \<Rightarrow> error + pyval" where
  "py_clear (PList xs) = Inr (PList [])"
| "py_clear (PDict d) = Inr (PDict [])"
| "py_clear v = Inl AttributeError"

section \<open>The optimizer object and the file system\<close>

text \<open>
  The attributes of \<^verbatim>\<open>self\<close> that the ledger uses, together with the files the
  operations read and write. \<^verbatim>\<open>applied_tweaks\<close> is always a set and
  \<^verbatim>\<open>last_resolution\<close> always a tuple (both are only assigned from \<^verbatim>\<open>set(...)\<close> and
  \<^verbatim>\<open>tuple(...)\<close>); the other three hold any value.

  A file is represented by what \<^verbatim>\<open>json.load\<close> makes of it: a document, or text
  that does not parse. \<^verbatim>\<open>denied p\<close> says that opening or removing \<^verbatim>\<open>p\<close> raises
  OSError. Writing to the GUI (\<^verbatim>\<open>log_message\<close>, message boxes) is not modelled.
\<close>

datatype content = Unparseable | Doc pyval

record world =
  applied_tweaks :: "pyval list"
  tweak_history :: pyval
  current_profile :: pyval
  last_resolution :: "pyval list"
  last_refresh_rate :: pyval
  files :: "string \<Rightarrow> content option"
  denied :: "string \<Rightarrow> bool"

text \<open>
  What the operations read from outside: the clock in the two formats used
  (\<^verbatim>\<open>'%Y-%m-%d %H:%M:%S'\<close> and \<^verbatim>\<open>'%Y%m%d_%H%M%S'\<close>), \<^verbatim>\<open>platform.platform()\<close>,
  \<^verbatim>\<open>sys.version\<close>, and what each tweak function returns when it is called.
\<close>

record env =
  now :: string
  now_compact :: string
  platform_str :: string
  python_version :: string
  tweak_result :: "string \<Rightarrow> bool"

definition tweaks_file :: string where
  "tweaks_file = ''frog_tech_tweaks.json''"

text \<open>\<^verbatim>\<open>with open(p, 'w') as f: json.dump(v, f, indent=2)\<close>\<close>

definition py_write :: "string \<Rightarrow> pyval \<Rightarrow> world \<Rightarrow> error + world" where
  "py_write p v w =
     (if denied w p then Inl OSError else Inr (w\<lparr>files := (files w)(p \<mapsto> Doc v)\<rparr>))"

text \<open>\<^verbatim>\<open>with open(p, 'r') as f: json.load(f)\<close>\<close>

definition py_read :: "string \<Rightarrow> world \<Rightarrow> error + pyval" where
  "py_read p w =
     (case files w p of
        None \<Rightarrow> Inl OSError
      | Some c \<Rightarrow>
          if denied w p then Inl OSError
          else (case c of Unparseable \<Rightarrow> Inl JSONDecodeError | Doc v \<Rightarrow> Inr v))"

text \<open>\<^verbatim>\<open>if os.path.exists(p): os.remove(p)\<close>\<close>

definition remove_if_exists :: "string \<Rightarrow> world \<Rightarrow> error + world" where
  "remove_if_exists p w =
     (if files w p \<noteq> None
      then (if denied w p then Inl OSError else Inr (w\<lparr>files := (files w)(p := None)\<rparr>))
      else Inr w)"

section \<open>The ledger operations\<close>

definition system_info :: "env \<Rightarrow> pyval" where
  "system_info e =
     PDict [(''platform'', PStr (platform_str e)), (''python_version'', PStr (python_version e))]"

text \<open>The dictionary \<^verbatim>\<open>save_tweaks\<close> builds (the tuple is written as a JSON array).\<close>

definition save_data :: "env \<Rightarrow> world \<Rightarrow> (string \<times> pyval) list" where
  "save_data e w =
     [(''applied_tweaks'', PList (applied_tweaks w)),
      (''tweak_history'', tweak_history w),
      (''current_profile'', current_profile w),
      (''timestamp'', PStr (now e)),
      (''system_info'', system_info e),
      (''last_resolution'', PList (last_resolution w)),
      (''last_refresh_rate'', last_refresh_rate w)]"

definition save_tweaks :: "env \<Rightarrow> world \<Rightarrow> bool \<times> world" where
  "save_tweaks e w =
     (case py_write tweaks_file (PDict (save_data e w)) w of
        Inl err \<Rightarrow> (False, w)
      | Inr w' \<Rightarrow> (True, w'))"

text \<open>
  \<^verbatim>\<open>track_tweak(tweak_name, success)\<close>. \<^verbatim>\<open>ts\<close> is the clock reading for the history
  entry, \<^verbatim>\<open>e\<close> the environment of the \<^verbatim>\<open>save_tweaks\<close> call that follows. The method
  has no \<^verbatim>\<open>try\<close>: when \<^verbatim>\<open>append\<close> raises, the exception leaves the method with the
  name already added to the set.
\<close>

definition history_entry :: "string \<Rightarrow> string \<Rightarrow> pyval" where
  "history_entry tweak_name ts =
     PDict [(''tweak'', PStr tweak_name), (''timestamp'', PStr ts), (''success'', PBool True)]"

definition track_tweak :: "string \<Rightarrow> env \<Rightarrow> string \<Rightarrow> bool \<Rightarrow> world \<Rightarrow> error option \<times> world" where
  "track_tweak ts e tweak_name success w =
     (if success then
        (let w1 = w\<lparr>applied_tweaks := py_set_add (PStr tweak_name) (applied_tweaks w)\<rparr> in
         case py_append (tweak_history w1) (history_entry tweak_name ts) of
           Inl err \<Rightarrow> (Some err, w1)
         | Inr h \<Rightarrow> (None, snd (save_tweaks e (w1\<lparr>tweak_history := h\<rparr>))))
      else (None, w))"

definition get_tweak_status :: "string \<Rightarrow> world \<Rightarrow> bool" where
  "get_tweak_status tweak_name w = (py_key (PStr tweak_name) \<in> set (map py_key (applied_tweaks w)))"

text \<open>
  \<^verbatim>\<open>load_saved_tweaks\<close>. The attributes are assigned one after the other inside
  one \<^verbatim>\<open>try\<close>; an exception ends the method with the assignments made so far.
  \<^verbatim>\<open>tweak_data.get\<close> raises AttributeError on the first call unless the document
  is a dictionary. The default of \<^verbatim>\<open>last_resolution\<close> is the tuple
  \<^verbatim>\<open>(1920, 1080)\<close>; a value that is present goes through \<^verbatim>\<open>tuple(...)\<close>.
\<close>

definition load_saved_tweaks :: "world \<Rightarrow> bool \<times> world" where
  "load_saved_tweaks w =
     (if files w tweaks_file \<noteq> None then
        (case py_read tweaks_file w of
           Inl err \<Rightarrow> (False, w)
         | Inr (PDict d) \<Rightarrow>
             (case py_set (dict_get d ''applied_tweaks'' (PList [])) of
                Inl err \<Rightarrow> (False, w)
              | Inr s \<Rightarrow>
                  (let w1 = w\<lparr>applied_tweaks := s\<rparr>;
                       w2 = w1\<lparr>tweak_history := dict_get d ''tweak_history'' (PList [])\<rparr>;
                       w3 = w2\<lparr>current_profile := dict_get d ''current_profile'' PNone\<rparr>
                   in case (case map_of d ''last_resolution'' of
                              None \<Rightarrow> Inr [PInt 1920, PInt 1080]
                            | Some v \<Rightarrow> py_iter v) of
                        Inl err \<Rightarrow> (False, w3)
                      | Inr t \<Rightarrow>
                          (let w4 = w3\<lparr>last_resolution := t\<rparr>;
                               w5 = w4\<lparr>last_refresh_rate := dict_get d ''last_refresh_rate'' (PInt 60)\<rparr>
                           in (True, w5))))
         | Inr v \<Rightarrow> (False, w))
      else (False, w))"


text \<open>
  \<^verbatim>\<open>export_tweaks(filename=None)\<close>: an absent or empty name is replaced by one made
  from the clock.
\<close>

definition export_data :: "env \<Rightarrow> world \<Rightarrow> (string \<times> pyval) list" where
  "export_data e w =
     [(''applied_tweaks'', PList (applied_tweaks w)),
      (''tweak_history'', tweak_history w),
      (''current_profile'', current_profile w),
      (''export_timestamp'', PStr (now e)),
      (''system_info'', system_info e)]"

definition export_name :: "env \<Rightarrow> string option \<Rightarrow> string" where
  "export_name e filename =
     (case filename of
        None \<Rightarrow> ''frog_tech_tweaks_export_'' @ now_compact e @ ''.json''
      | Some f \<Rightarrow> if f = [] then ''frog_tech_tweaks_export_'' @ now_compact e @ ''.json'' else f)"

definition export_tweaks :: "env \<Rightarrow> string option \<Rightarrow> world \<Rightarrow> bool \<times> world" where
  "export_tweaks e filename w =
     (case py_write (export_name e filename) (PDict (export_data e w)) w of
        Inl err \<Rightarrow> (False, w)
      | Inr w' \<Rightarrow> (True, w'))"

text \<open>\<^verbatim>\<open>import_tweaks(filename)\<close>; the result of the \<^verbatim>\<open>save_tweaks\<close> call is dropped.\<close>

definition import_tweaks :: "env \<Rightarrow> string \<Rightarrow> world \<Rightarrow> bool \<times> world" where
  "import_tweaks e filename w =
     (case py_read filename w of
        Inl err \<Rightarrow> (False, w)
      | Inr (PDict d) \<Rightarrow>
          (case py_set (dict_get d ''applied_tweaks'' (PList [])) of
             Inl err \<Rightarrow> (False, w)
           | Inr s \<Rightarrow>
               (let w1 = w\<lparr>applied_tweaks := s\<rparr>;
                    w2 = w1\<lparr>tweak_history := dict_get d ''tweak_history'' (PList [])\<rparr>;
                    w3 = w2\<lparr>current_profile := dict_get d ''current_profile'' PNone\<rparr>
                in (True, snd (save_tweaks e w3))))
      | Inr v \<Rightarrow> (False, w))"

text \<open>
  \<^verbatim>\<open>clear_saved_tweaks\<close>: \<^verbatim>\<open>result\<close> is the answer to the yes/no message box.
  The method returns \<^verbatim>\<open>True\<close> also when the user says no.
\<close>

definition clear_saved_tweaks :: "bool \<Rightarrow> world \<Rightarrow> bool \<times> world" where
  "clear_saved_tweaks result w =
     (if result then
        (case remove_if_exists tweaks_file w of
           Inl err \<Rightarrow> (False, w)
         | Inr w1 \<Rightarrow>
             (let w2 = w1\<lparr>applied_tweaks := []\<rparr> in
              case py_clear (tweak_history w2) of
                Inl err \<Rightarrow> (False, w2)
              | Inr h \<Rightarrow> (True, w2\<lparr>tweak_history := h, current_profile := PNone\<rparr>)))
      else (True, w))"

text \<open>The five attributes that make up the ledger.\<close>

definition ledger :: "world \<Rightarrow> pyval list \<times> pyval \<times> pyval \<times> pyval list \<times> pyval" where
  "ledger w =
     (applied_tweaks w, tweak_history w, current_profile w, last_resolution w, last_refresh_rate w)"

section \<open>Performance profiles\<close>

text \<open>
  Every profile method is a run of blocks
  \<^verbatim>\<open>if self.f(): ...insert(...); applied += 1\<close> inside
  \<^verbatim>\<open>try: ... return applied / except: return applied\<close>. In three of the methods the
  block also calls \<^verbatim>\<open>self.track_tweak(name)\<close> before the count goes up. A step
  names the tweak function and, when the block tracks, the name it tracks. The tweak
  functions catch their own exceptions and return a boolean. The clock is read once
  for a whole run.
\<close>

datatype step = Tracked string string | Untracked string

fun run_steps :: "env \<Rightarrow> step list \<Rightarrow> nat \<Rightarrow> world \<Rightarrow> nat \<times> world" where
  "run_steps e [] applied w = (applied, w)"
| "run_steps e (Untracked f # rest) applied w =
     run_steps e rest (if tweak_result e f then applied + 1 else applied) w"
| "run_steps e (Tracked f name # rest) applied w =
     (if tweak_result e f then
        (case track_tweak (now e) e name True w of
           (Some err, w') \<Rightarrow> (applied, w')
         | (None, w') \<Rightarrow> run_steps e rest (applied + 1) w')
      else run_steps e rest applied w)"

definition apply_quality_profile :: "env \<Rightarrow> world \<Rightarrow> nat \<times> world" where
  "apply_quality_profile e w = run_steps e
     [Tracked ''disable_visual_effects'' ''visual_effects_quality'',
      Tracked ''optimize_graphics_quality_advanced'' ''graphics_quality_advanced'',
      Tracked ''optimize_hardware_acceleration_advanced'' ''hardware_acceleration_advanced'',
      Tracked ''optimize_windows_services_advanced'' ''windows_services_advanced'',
      Tracked ''optimize_memory_compression_advanced'' ''memory_compression_advanced''] 0 w"

definition apply_performance_profile_impl :: "env \<Rightarrow> world \<Rightarrow> nat \<times> world" where
  "apply_performance_profile_impl e w = run_steps e
     [Tracked ''optimize_cpu_affinity_advanced'' ''cpu_affinity_advanced'',
      Tracked ''optimize_thread_priority_advanced'' ''thread_priority_advanced'',
      Tracked ''optimize_turbo_boost_advanced'' ''turbo_boost_advanced'',
      Tracked ''optimize_disk_performance_advanced'' ''disk_performance_advanced'',
      Tracked ''optimize_network_performance_advanced'' ''network_performance_advanced''] 0 w"

definition apply_balanced_profile :: "env \<Rightarrow> world \<Rightarrow> nat \<times> world" where
  "apply_balanced_profile e w = run_steps e
     [Tracked ''disable_telemetry'' ''disable_telemetry'',
      Tracked ''disable_cortana'' ''disable_cortana'',
      Tracked ''optimize_windows_services_advanced'' ''windows_services_advanced'',
      Tracked ''optimize_background_processes_advanced'' ''background_processes_advanced'',
      Tracked ''optimize_startup_programs_advanced'' ''startup_programs_advanced''] 0 w"

definition apply_ultra_quality_profile :: "env \<Rightarrow> world \<Rightarrow> nat \<times> world" where
  "apply_ultra_quality_profile e w = run_steps e
     [Untracked ''optimize_graphics_quality_advanced'',
      Untracked ''optimize_hardware_acceleration_advanced'',
      Untracked ''optimize_shader_cache_advanced'',
      Untracked ''optimize_memory_compression_advanced''] 0 w"

definition apply_ultra_performance_profile :: "env \<Rightarrow> world \<Rightarrow> nat \<times> world" where
  "apply_ultra_performance_profile e w = run_steps e
     [Untracked ''optimize_cpu_affinity_advanced'',
      Untracked ''optimize_thread_priority_advanced'',
      Untracked ''optimize_interrupt_affinity_advanced'',
      Untracked ''optimize_turbo_boost_advanced'',
      Untracked ''optimize_hyper_threading_advanced'',
      Untracked ''optimize_disk_performance_advanced'',
      Untracked ''optimize_network_performance_advanced'',
      Untracked ''optimize_game_mode_advanced'',
      Untracked ''optimize_gpu_settings_advanced''] 0 w"

definition apply_low_latency_profile :: "env \<Rightarrow> world \<Rightarrow> nat \<times> world" where
  "apply_low_latency_profile e w = run_steps e
     [Untracked ''optimize_interrupt_affinity_advanced'',
      Untracked ''optimize_thread_priority_advanced'',
      Untracked ''optimize_network_performance_advanced'',
      Untracked ''optimize_vsync_advanced'',
      Untracked ''optimize_fullscreen_optimizations_advanced''] 0 w"

definition apply_ultra_low_latency_profile :: "env \<Rightarrow> world \<Rightarrow> nat \<times> world" where
  "apply_ultra_low_latency_profile e w = run_steps e
     [Untracked ''optimize_interrupt_affinity_advanced'',
      Untracked ''optimize_thread_priority_advanced'',
      Untracked ''optimize_cpu_parking_advanced'',
      Untracked ''optimize_network_performance_advanced'',
      Untracked ''optimize_vsync_advanced'',
      Untracked ''optimize_fullscreen_optimizations_advanced'',
      Untracked ''disable_game_dvr_advanced'',
      Untracked ''disable_game_bar_advanced'',
      Untracked ''disable_xbox_live_advanced''] 0 w"

definition apply_ultra_high_performance_profile :: "env \<Rightarrow> world \<Rightarrow> nat \<times> world" where
  "apply_ultra_high_performance_profile e w = run_steps e
     [Untracked ''optimize_cpu_affinity_advanced'',
      Untracked ''optimize_thread_priority_advanced'',
      Untracked ''optimize_interrupt_affinity_advanced'',
      Untracked ''optimize_turbo_boost_advanced'',
      Untracked ''optimize_hyper_threading_advanced'',
      Untracked ''optimize_memory_compression_advanced'',
      Untracked ''optimize_page_file_advanced'',
      Untracked ''optimize_disk_performance_advanced'',
      Untracked ''optimize_network_performance_advanced'',
      Untracked ''optimize_game_mode_advanced'',
      Untracked ''optimize_gpu_settings_advanced'',
      Untracked ''optimize_shader_cache_advanced'',
      Untracked ''optimize_windows_services_advanced'',
      Untracked ''optimize_background_processes_advanced'',
      Untracked ''optimize_startup_programs_advanced'',
      Untracked ''disable_telemetry'',
      Untracked ''disable_cortana'',
      Untracked ''disable_visual_effects'',
      Untracked ''disable_animations'',
      Untracked ''disable_transparency'',
      Untracked ''disable_shadows'',
      Untracked ''disable_smooth_scrolling'',
      Untracked ''disable_font_smoothing'',
      Untracked ''disable_clear_type''] 0 w"

text \<open>
  \<^verbatim>\<open>apply_super_computer_profile\<close> starts from the count of
  \<^verbatim>\<open>apply_ultra_high_performance_profile\<close> and goes on with its own blocks.
\<close>

definition apply_super_computer_profile :: "env \<Rightarrow> world \<Rightarrow> nat \<times> world" where
  "apply_super_computer_profile e w =
     (case apply_ultra_high_performance_profile e w of
        (n, w1) \<Rightarrow> run_steps e
     [Untracked ''optimize_cpu_parking_advanced'',
      Untracked ''optimize_vsync_advanced'',
      Untracked ''optimize_fullscreen_optimizations_advanced'',
      Untracked ''optimize_hardware_acceleration_advanced'',
      Untracked ''disable_game_dvr_advanced'',
      Untracked ''disable_game_bar_advanced'',
      Untracked ''disable_xbox_live_advanced'',
      Untracked ''disable_timeline'',
      Untracked ''disable_activity_history'',
      Untracked ''disable_location_tracking'',
      Untracked ''disable_advertising_id'',
      Untracked ''disable_tips'',
      Untracked ''disable_dwm'',
      Untracked ''disable_windows_update'',
      Untracked ''disable_windows_store'',
      Untracked ''disable_network_discovery'',
      Untracked ''disable_network_sharing'',
      Untracked ''disable_remote_assistance'',
      Untracked ''disable_remote_desktop'',
      Untracked ''disable_network_adapters'',
      Untracked ''disable_wifi_sense'',
      Untracked ''disable_user_account_control'',
      Untracked ''disable_smart_screen'',
      Untracked ''disable_windows_defender'',
      Untracked ''disable_firewall'',
      Untracked ''disable_bitlocker'',
      Untracked ''disable_secure_boot'',
      Untracked ''disable_tpm'',
      Untracked ''disable_credential_guard'',
      Untracked ''optimize_scheduled_tasks_advanced'',
      Untracked ''optimize_system_restore_advanced'',
      Untracked ''optimize_storage_sense_advanced'',
      Untracked ''optimize_file_indexing_advanced'',
      Untracked ''optimize_shadow_copies_advanced'',
      Untracked ''optimize_recycle_bin_advanced'',
      Untracked ''optimize_file_compression_advanced''] n w1)"

text \<open>
  \<^verbatim>\<open>apply_profile_thread\<close>, the body of \<^verbatim>\<open>apply_performance_profile\<close>: it stores
  the profile name, runs the profile's method, tracks \<^verbatim>\<open>profile_<name>\<close> and shows
  the count. The result is the count shown, or \<^verbatim>\<open>None\<close> when an exception made the
  thread show an error instead.
\<close>

definition apply_profile_thread :: "env \<Rightarrow> string \<Rightarrow> world \<Rightarrow> nat option \<times> world" where
  "apply_profile_thread e profile w =
     (let w1 = w\<lparr>current_profile := PStr profile\<rparr> in
      case (if profile = ''quality'' then apply_quality_profile e w1
            else if profile = ''performance'' then apply_performance_profile_impl e w1
            else if profile = ''balanced'' then apply_balanced_profile e w1
            else if profile = ''ultra_quality'' then apply_ultra_quality_profile e w1
            else if profile = ''ultra_performance'' then apply_ultra_performance_profile e w1
            else if profile = ''low_latency'' then apply_low_latency_profile e w1
            else if profile = ''ultra_low_latency'' then apply_ultra_low_latency_profile e w1
            else if profile = ''ultra_high_performance'' then apply_ultra_high_performance_profile e w1
            else if profile = ''super_computer'' then apply_super_computer_profile e w1
            else (0, w1)) of
        (applied, w2) \<Rightarrow>
          (case track_tweak (now e) e (''profile_'' @ profile) True w2 of
             (Some err, w3) \<Rightarrow> (None, w3)
           | (None, w3) \<Rightarrow> (Some applied, w3)))"

section \<open>Predicates and sample inputs used in the statements\<close>

text \<open>The top-level keys of the document a file holds.\<close>

definition doc_keys :: "content option \<Rightarrow> string list" where
  "doc_keys c = (case c of Some (Doc (PDict d)) \<Rightarrow> map fst d | _ \<Rightarrow> [])"


text \<open>The document is a JSON object.\<close>

fun is_dict :: "pyval \<Rightarrow> bool" where
  "is_dict (PDict d) = True"
| "is_dict v = False"


text \<open>A top-level field of the document a file holds.\<close>

definition doc_field :: "content option \<Rightarrow> string \<Rightarrow> pyval option" where
  "doc_field c k = (case c of Some (Doc (PDict d)) \<Rightarrow> map_of d k | _ \<Rightarrow> None)"

text \<open>
  Sample inputs: an environment in which every tweak function succeeds, and the state
  \<^verbatim>\<open>__init__\<close> sets up, with no file on disk.
\<close>

definition all_succeed :: "string \<Rightarrow> bool" where
  "all_succeed f = True"

definition no_files :: "string \<Rightarrow> content option" where
  "no_files p = None"

definition nothing_denied :: "string \<Rightarrow> bool" where
  "nothing_denied p = False"

definition env0 :: env where
  "env0 = \<lparr>now = ''2025-01-01 12:00:00'', now_compact = ''20250101_120000'',
     platform_str = ''Windows-10'', python_version = ''3.11.0'', tweak_result = all_succeed\<rparr>"

definition init_world :: world where
  "init_world = \<lparr>applied_tweaks = [], tweak_history = PList [], current_profile = PNone,
     last_resolution = [PInt 1920, PInt 1080], last_refresh_rate = PInt 60,
     files = no_files, denied = nothing_denied\<rparr>"

text \<open>After one successful \<^verbatim>\<open>track_tweak("disable_telemetry")\<close> on the initial state.\<close>

definition tracked_world :: world where
  "tracked_world =
     snd (track_tweak ''2025-01-01 11:59:59'' env0 ''disable_telemetry'' True init_world)"

text \<open>A new process that finds the file written by the previous one.\<close>

definition restarted_world :: world where
  "restarted_world = init_world\<lparr>files := files tracked_world\<rparr>"

definition exported_world :: world where
  "exported_world = snd (export_tweaks env0 (Some ''backup.json'') tracked_world)"

definition fresh_with_backup :: world where
  "fresh_with_backup = init_world\<lparr>files := files exported_world\<rparr>"

text \<open>A persistence file whose \<^verbatim>\<open>last_resolution\<close> is the number 5.\<close>

definition bad_resolution_world :: world where
  "bad_resolution_world = init_world\<lparr>files := no_files(tweaks_file \<mapsto>
     Doc (PDict [(''applied_tweaks'', PList [PStr ''A'']), (''last_resolution'', PInt 5)]))\<rparr>"

text \<open>A non-empty ledger next to a persistence file that is not JSON.\<close>

definition unparseable_world :: world where
  "unparseable_world = tracked_world\<lparr>files := no_files(tweaks_file \<mapsto> Unparseable)\<rparr>"

text \<open>A ledger with \<^verbatim>\<open>applied = {"B"}\<close> and a file to import with \<^verbatim>\<open>applied = {"A"}\<close>.\<close>

definition import_doc :: "(string \<times> pyval) list" where
  "import_doc =
     [(''applied_tweaks'', PList [PStr ''A'']),
      (''tweak_history'', PList [history_entry ''A'' ''2024-12-31 09:00:00'']),
      (''current_profile'', PStr ''balanced''),
      (''last_resolution'', PList [PInt 800, PInt 600]),
      (''last_refresh_rate'', PInt 144)]"

definition import_source :: world where
  "import_source = init_world\<lparr>applied_tweaks := [PStr ''B''],
     files := no_files(''backup.json'' \<mapsto> Doc (PDict import_doc))\<rparr>"

text \<open>The same ledger when the persistence file is locked: opening or removing it raises.\<close>

definition only_tweaks_file_denied :: "string \<Rightarrow> bool" where
  "only_tweaks_file_denied p = (p = tweaks_file)"

definition locked_world :: world where
  "locked_world = tracked_world\<lparr>denied := only_tweaks_file_denied\<rparr>"

text \<open>
  Persistence files that are JSON but not as expected: an array, an
  \<^verbatim>\<open>applied_tweaks\<close> with a list as member, an \<^verbatim>\<open>applied_tweaks\<close> that is a
  number, and a \<^verbatim>\<open>tweak_history\<close> that is a string.
\<close>

definition non_object_world :: world where
  "non_object_world = tracked_world\<lparr>files := no_files(tweaks_file \<mapsto> Doc (PList []))\<rparr>"

definition unhashable_world :: world where
  "unhashable_world = tracked_world\<lparr>files := no_files(tweaks_file \<mapsto>
     Doc (PDict [(''applied_tweaks'', PList [PList [PStr ''A'']])]))\<rparr>"

definition not_iterable_world :: world where
  "not_iterable_world = tracked_world\<lparr>files := no_files(tweaks_file \<mapsto>
     Doc (PDict [(''applied_tweaks'', PInt 5)]))\<rparr>"

definition wrong_history_file_world :: world where
  "wrong_history_file_world = init_world\<lparr>files := no_files(tweaks_file \<mapsto>
     Doc (PDict [(''applied_tweaks'', PList [PStr ''A'']), (''tweak_history'', PStr ''oops'')]))\<rparr>"

text \<open>The ledger after loading the file whose \<^verbatim>\<open>tweak_history\<close> is a string.\<close>

definition wrong_history_world :: world where
  "wrong_history_world = snd (load_saved_tweaks wrong_history_file_world)"

text \<open>The state after the import, and a new process that finds the file it saved.\<close>

definition imported_world :: world where
  "imported_world = snd (import_tweaks env0 ''backup.json'' import_source)"

definition restarted_after_import :: world where
  "restarted_after_import = init_world\<lparr>files := files imported_world\<rparr>"

section \<open>Sets built from lists\<close>

lemma set_of_list_fold:
  "list_all hashable xs \<Longrightarrow> set_of_list xs acc = Inr (fold py_set_add xs acc)"
  by (induction xs arbitrary: acc) auto

lemma set_of_list_unhashable:
  "\<not> list_all hashable xs \<Longrightarrow> set_of_list xs acc = Inl TypeError"
  by (induction xs arbitrary: acc) auto

lemma fold_add_distinct:
  "distinct (map py_key (acc @ xs)) \<Longrightarrow> fold py_set_add xs acc = acc @ xs"
  by (induction xs arbitrary: acc) (auto simp: py_set_add_def)

lemma fold_add_keys:
  "set (map py_key (fold py_set_add xs acc)) = set (map py_key acc) \<union> set (map py_key xs)"
  by (induction xs arbitrary: acc) (auto simp: py_set_add_def)

text \<open>The representation invariant is kept by \<^verbatim>\<open>add\<close> and by \<^verbatim>\<open>set(...)\<close>.\<close>

lemma py_set_add_inv: "pyset_inv s \<Longrightarrow> hashable x \<Longrightarrow> pyset_inv (py_set_add x s)"
  by (auto simp: py_set_add_def pyset_inv_def)

lemma fold_add_inv:
  "pyset_inv acc \<Longrightarrow> list_all hashable xs \<Longrightarrow> pyset_inv (fold py_set_add xs acc)"
  by (induction xs arbitrary: acc) (auto simp: py_set_add_def pyset_inv_def)

lemma py_set_inv: "py_set v = Inr s \<Longrightarrow> pyset_inv s"
proof -
  assume a: "py_set v = Inr s"
  then obtain xs where xs: "py_iter v = Inr xs" and s: "set_of_list xs [] = Inr s"
    by (auto simp: py_set_def split: sum.splits)
  have h: "list_all hashable xs"
  proof (rule ccontr)
    assume "\<not> list_all hashable xs"
    then have "set_of_list xs [] = Inl TypeError"
      by (rule set_of_list_unhashable)
    with s show False by simp
  qed
  have "pyset_inv []" by (simp add: pyset_inv_def)
  with h s show ?thesis
    using fold_add_inv [of "[]" xs] by (simp add: set_of_list_fold)
qed

text \<open>Every operation that assigns \<^verbatim>\<open>applied_tweaks\<close> keeps the invariant.\<close>

lemma load_keeps_inv:
  "pyset_inv (applied_tweaks w) \<Longrightarrow> pyset_inv (applied_tweaks (snd (load_saved_tweaks w)))"
  by (auto simp: load_saved_tweaks_def Let_def dest: py_set_inv
      split: sum.splits pyval.splits option.splits)

lemma import_keeps_inv:
  "pyset_inv (applied_tweaks w) \<Longrightarrow> pyset_inv (applied_tweaks (snd (import_tweaks e f w)))"
  by (auto simp: import_tweaks_def save_tweaks_def py_write_def Let_def dest: py_set_inv
      split: sum.splits pyval.splits)

lemma track_keeps_inv:
  "pyset_inv (applied_tweaks w) \<Longrightarrow> pyset_inv (applied_tweaks (snd (track_tweak ts e n b w)))"
  by (auto simp: track_tweak_def save_tweaks_def py_write_def Let_def py_set_add_inv
      split: sum.splits)

text \<open>A profile method whose blocks never call \<^verbatim>\<open>track_tweak\<close> leaves the state alone.\<close>

lemma untracked_steps_keep_world:
  "list_all (\<lambda>s. case s of Untracked f \<Rightarrow> True | Tracked f n \<Rightarrow> False) steps
   \<Longrightarrow> snd (run_steps e steps applied w) = w"
  by (induction e steps applied w rule: run_steps.induct) auto

lemma ultra_quality_keeps_world: "snd (apply_ultra_quality_profile e w) = w"
  by (simp add: apply_ultra_quality_profile_def untracked_steps_keep_world)

text \<open>Serialising a set as a list and reading it back with \<^verbatim>\<open>set(...)\<close> gives the set.\<close>

lemma py_set_of_set: "pyset_inv s \<Longrightarrow> py_set (PList s) = Inr s"
  using fold_add_distinct [of "[]" s]
  by (simp add: py_set_def pyset_inv_def set_of_list_fold)

lemma count_list_distinct:
  "distinct xs \<Longrightarrow> x \<in> set xs \<Longrightarrow> count_list xs x = 1"
  by (induction xs) auto

lemma tracked_world_eq:
  "tracked_world = init_world\<lparr>applied_tweaks := [PStr ''disable_telemetry''],
     tweak_history := PList [history_entry ''disable_telemetry'' ''2025-01-01 11:59:59''],
     files := no_files(tweaks_file \<mapsto> Doc (PDict
       [(''applied_tweaks'', PList [PStr ''disable_telemetry'']),
        (''tweak_history'', PList [history_entry ''disable_telemetry'' ''2025-01-01 11:59:59'']),
        (''current_profile'', PNone),
        (''timestamp'', PStr ''2025-01-01 12:00:00''),
        (''system_info'', system_info env0),
        (''last_resolution'', PList [PInt 1920, PInt 1080]),
        (''last_refresh_rate'', PInt 60)]))\<rparr>"
  by (simp add: tracked_world_def track_tweak_def init_world_def py_set_add_def save_tweaks_def
      py_write_def nothing_denied_def save_data_def env0_def)

lemma tracked_world_inv: "pyset_inv (applied_tweaks tracked_world)"
  by (simp add: tracked_world_eq pyset_inv_def)

text \<open>When \<^verbatim>\<open>set(...)\<close> raises.\<close>

lemma py_set_not_iterable: "isl (py_iter v) \<Longrightarrow> isl (py_set v)"
  by (auto simp: py_set_def split: sum.splits)

lemma py_set_unhashable: "\<not> list_all hashable xs \<Longrightarrow> py_set (PList xs) = Inl TypeError"
  by (simp add: py_set_def set_of_list_unhashable)

text \<open>Loading a file that \<^verbatim>\<open>save_tweaks\<close> wrote.\<close>

lemma load_saved_file:
  assumes "files v tweaks_file = Some (Doc (PDict (save_data e w)))"
    and "\<not> denied v tweaks_file"
    and "pyset_inv (applied_tweaks w)"
  shows "load_saved_tweaks v
           = (True, v\<lparr>applied_tweaks := applied_tweaks w, tweak_history := tweak_history w,
                current_profile := current_profile w, last_resolution := last_resolution w,
                last_refresh_rate := last_refresh_rate w\<rparr>)"
proof -
  have r: "py_read tweaks_file v = Inr (PDict (save_data e w))"
    using assms(1,2) by (simp add: py_read_def)
  have a: "py_set (dict_get (save_data e w) ''applied_tweaks'' (PList [])) = Inr (applied_tweaks w)"
    using assms(3) by (simp add: save_data_def dict_get_def py_set_of_set)
  have g: "dict_get (save_data e w) ''tweak_history'' (PList []) = tweak_history w"
    "dict_get (save_data e w) ''current_profile'' PNone = current_profile w"
    "dict_get (save_data e w) ''last_refresh_rate'' (PInt 60) = last_refresh_rate w"
    "map_of (save_data e w) ''last_resolution'' = Some (PList (last_resolution w))"
    by (simp_all add: save_data_def dict_get_def)
  show ?thesis
    by (simp add: load_saved_tweaks_def assms(1) r a g)
qed

text \<open>A string as \<^verbatim>\<open>tweak_history\<close> is accepted by the load.\<close>

lemma wrong_history_world_eq:
  "load_saved_tweaks wrong_history_file_world
     = (True, wrong_history_file_world\<lparr>applied_tweaks := [PStr ''A''],
          tweak_history := PStr ''oops''\<rparr>)"
  by (simp add: load_saved_tweaks_def wrong_history_file_world_def init_world_def py_read_def
      nothing_denied_def dict_get_def py_set_def py_set_add_def)

lemma wrong_history_world_val:
  "wrong_history_world
     = wrong_history_file_world\<lparr>applied_tweaks := [PStr ''A''], tweak_history := PStr ''oops''\<rparr>"
  by (simp add: wrong_history_world_def wrong_history_world_eq)

text \<open>When the user answers no, \<^verbatim>\<open>clear_saved_tweaks\<close> changes nothing.\<close>

lemma clear_declined: "clear_saved_tweaks False w = (True, w)"
  by (simp add: clear_saved_tweaks_def)

section \<open>Persistence round trip\<close>

text \<open>
  C1. For every ledger state, once \<^verbatim>\<open>save_tweaks\<close> has written the file,
  \<^verbatim>\<open>load_saved_tweaks\<close> on that file (in the same process or in a new one, whatever
  its ledger held before) succeeds and reproduces the applied set, the history in the
  same order and the current profile; the display settings come back as well.
\<close>

theorem save_load_roundtrip:
  assumes "pyset_inv (applied_tweaks w)"
    and "save_tweaks e w = (True, w')"
    and "files v tweaks_file = files w' tweaks_file"
    and "\<not> denied v tweaks_file"
  shows "fst (load_saved_tweaks v)
       \<and> applied_tweaks (snd (load_saved_tweaks v)) = applied_tweaks w
       \<and> tweak_history (snd (load_saved_tweaks v)) = tweak_history w
       \<and> current_profile (snd (load_saved_tweaks v)) = current_profile w
       \<and> last_resolution (snd (load_saved_tweaks v)) = last_resolution w
       \<and> last_refresh_rate (snd (load_saved_tweaks v)) = last_refresh_rate w"
proof -
  from assms(2) have "w' = w\<lparr>files := (files w)(tweaks_file \<mapsto> Doc (PDict (save_data e w)))\<rparr>"
    by (auto simp: save_tweaks_def py_write_def split: if_splits)
  with assms(3) have f: "files v tweaks_file = Some (Doc (PDict (save_data e w)))"
    by simp
  with assms(4) have r: "py_read tweaks_file v = Inr (PDict (save_data e w))"
    by (simp add: py_read_def)
  have a: "py_set (dict_get (save_data e w) ''applied_tweaks'' (PList [])) = Inr (applied_tweaks w)"
    using assms(1) by (simp add: save_data_def dict_get_def py_set_of_set)
  have g: "dict_get (save_data e w) ''tweak_history'' (PList []) = tweak_history w"
    "dict_get (save_data e w) ''current_profile'' PNone = current_profile w"
    "dict_get (save_data e w) ''last_refresh_rate'' (PInt 60) = last_refresh_rate w"
    "map_of (save_data e w) ''last_resolution'' = Some (PList (last_resolution w))"
    by (simp_all add: save_data_def dict_get_def)
  show ?thesis
    by (simp add: load_saved_tweaks_def f r a g)
qed

text \<open>
  The scenario of the specification: a tweak is tracked and saved, a new process loads
  the file and recovers the applied set and the history.
\<close>

theorem save_load_roundtrip_witness:
  "pyset_inv (applied_tweaks tracked_world)
   \<and> save_tweaks env0 tracked_world = (True, tracked_world)
   \<and> files restarted_world tweaks_file = files tracked_world tweaks_file
   \<and> \<not> denied restarted_world tweaks_file
   \<and> fst (load_saved_tweaks restarted_world)
   \<and> applied_tweaks (snd (load_saved_tweaks restarted_world)) = [PStr ''disable_telemetry'']
   \<and> tweak_history (snd (load_saved_tweaks restarted_world))
       = PList [history_entry ''disable_telemetry'' ''2025-01-01 11:59:59'']
   \<and> current_profile (snd (load_saved_tweaks restarted_world)) = PNone"
proof -
  have h2: "save_tweaks env0 tracked_world = (True, tracked_world)"
    by (simp add: tracked_world_eq save_tweaks_def py_write_def init_world_def nothing_denied_def
        save_data_def env0_def)
  have h3: "files restarted_world tweaks_file = files tracked_world tweaks_file"
    by (simp add: restarted_world_def)
  have h4: "\<not> denied restarted_world tweaks_file"
    by (simp add: restarted_world_def init_world_def nothing_denied_def)
  show ?thesis
    using tracked_world_inv h2 h3 h4 save_load_roundtrip [OF tracked_world_inv h2 h3 h4]
    by (simp add: tracked_world_eq init_world_def)
qed

section \<open>The export file\<close>

text \<open>
  C2, as the code has it. The file \<^verbatim>\<open>export_tweaks\<close> writes holds exactly the keys
  \<^verbatim>\<open>applied_tweaks\<close>, \<^verbatim>\<open>tweak_history\<close>, \<^verbatim>\<open>current_profile\<close>,
  \<^verbatim>\<open>export_timestamp\<close> and \<^verbatim>\<open>system_info\<close>: the keys of the persistence file with
  \<^verbatim>\<open>export_timestamp\<close> in the place of \<^verbatim>\<open>timestamp\<close> and without
  \<^verbatim>\<open>last_resolution\<close> and \<^verbatim>\<open>last_refresh_rate\<close>. The keys the two files share
  carry the same values.
\<close>

theorem export_shape:
  assumes "export_tweaks e filename w = (True, w')"
  shows "files w' (export_name e filename) = Some (Doc (PDict (export_data e w)))
       \<and> map fst (export_data e w)
           = [''applied_tweaks'', ''tweak_history'', ''current_profile'', ''export_timestamp'',
              ''system_info'']
       \<and> map fst (save_data e w)
           = [''applied_tweaks'', ''tweak_history'', ''current_profile'', ''timestamp'',
              ''system_info'', ''last_resolution'', ''last_refresh_rate'']
       \<and> map_of (export_data e w) ''applied_tweaks'' = map_of (save_data e w) ''applied_tweaks''
       \<and> map_of (export_data e w) ''tweak_history'' = map_of (save_data e w) ''tweak_history''
       \<and> map_of (export_data e w) ''current_profile'' = map_of (save_data e w) ''current_profile''
       \<and> map_of (export_data e w) ''system_info'' = map_of (save_data e w) ''system_info''
       \<and> map_of (export_data e w) ''export_timestamp'' = map_of (save_data e w) ''timestamp''"
  using assms
  by (auto simp: export_tweaks_def py_write_def export_data_def save_data_def split: if_splits)

theorem export_shape_witness:
  "export_tweaks env0 (Some ''backup.json'') tracked_world = (True, exported_world)
   \<and> files exported_world (export_name env0 (Some ''backup.json''))
       = Some (Doc (PDict (export_data env0 tracked_world)))"
proof -
  have h: "export_tweaks env0 (Some ''backup.json'') tracked_world = (True, exported_world)"
    by (simp add: exported_world_def export_tweaks_def py_write_def tracked_world_eq
        init_world_def nothing_denied_def)
  show ?thesis
    using h export_shape [OF h] by simp
qed

text \<open>
  C2 as stated fails: the exported file of a ledger has neither \<^verbatim>\<open>last_resolution\<close>
  nor \<^verbatim>\<open>last_refresh_rate\<close>, which the persistence file of the same ledger has.
\<close>

theorem export_shape_counterexample:
  "fst (export_tweaks env0 (Some ''backup.json'') tracked_world)
   \<and> doc_keys (files (snd (export_tweaks env0 (Some ''backup.json'') tracked_world)) ''backup.json'')
       = [''applied_tweaks'', ''tweak_history'', ''current_profile'', ''export_timestamp'',
          ''system_info'']
   \<and> ''last_resolution'' \<notin> set (doc_keys
         (files (snd (export_tweaks env0 (Some ''backup.json'') tracked_world)) ''backup.json''))
   \<and> ''last_refresh_rate'' \<notin> set (doc_keys
         (files (snd (export_tweaks env0 (Some ''backup.json'') tracked_world)) ''backup.json''))
   \<and> doc_keys (files (snd (save_tweaks env0 tracked_world)) tweaks_file)
       = [''applied_tweaks'', ''tweak_history'', ''current_profile'', ''timestamp'',
          ''system_info'', ''last_resolution'', ''last_refresh_rate'']"
  by (simp add: export_tweaks_def export_name_def py_write_def tracked_world_eq init_world_def
      nothing_denied_def export_data_def doc_keys_def save_tweaks_def save_data_def)

section \<open>Applying a profile\<close>

text \<open>
  C3 at the profile \<^verbatim>\<open>ultra_quality\<close> with every tweak function succeeding:
  \<^verbatim>\<open>apply_ultra_quality_profile\<close> counts four successes and leaves the ledger as it
  was, so the only name the whole run records is \<^verbatim>\<open>profile_ultra_quality\<close>. On the
  same input \<^verbatim>\<open>apply_balanced_profile\<close> counts five and records each of its five.
\<close>

theorem ultra_quality_tracks_nothing:
  "apply_ultra_quality_profile env0 init_world = (4, init_world)
   \<and> apply_profile_thread env0 ''ultra_quality'' init_world
       = (Some 4, snd (track_tweak (now env0) env0 ''profile_ultra_quality'' True
                        (init_world\<lparr>current_profile := PStr ''ultra_quality''\<rparr>)))
   \<and> applied_tweaks (snd (apply_profile_thread env0 ''ultra_quality'' init_world))
       = [PStr ''profile_ultra_quality'']
   \<and> fst (apply_balanced_profile env0 init_world) = 5
   \<and> applied_tweaks (snd (apply_balanced_profile env0 init_world))
       = [PStr ''disable_telemetry'', PStr ''disable_cortana'', PStr ''windows_services_advanced'',
          PStr ''background_processes_advanced'', PStr ''startup_programs_advanced'']"
  by (simp add: apply_ultra_quality_profile_def apply_profile_thread_def apply_balanced_profile_def
      env0_def all_succeed_def init_world_def track_tweak_def py_set_add_def save_tweaks_def
      py_write_def nothing_denied_def Let_def)

section \<open>Tracking\<close>

text \<open>
  C7, as the code has it. On a ledger whose history is a list, two calls of
  \<^verbatim>\<open>track_tweak(name, True)\<close> in a row both return normally; afterwards the applied
  set holds the name exactly once (the second call leaves the set as the first made
  it), and the history has grown by exactly two entries, each with the name under
  \<^verbatim>\<open>tweak\<close>, the time of its call under \<^verbatim>\<open>timestamp\<close> and \<^verbatim>\<open>True\<close> under
  \<^verbatim>\<open>success\<close>, in call order.
\<close>

theorem track_twice:
  assumes "pyset_inv (applied_tweaks w)" and "tweak_history w = PList h"
  shows "fst (track_tweak ts1 e1 tweak_name True w) = None
       \<and> fst (track_tweak ts2 e2 tweak_name True (snd (track_tweak ts1 e1 tweak_name True w))) = None
       \<and> count_list (map py_key (applied_tweaks
             (snd (track_tweak ts2 e2 tweak_name True (snd (track_tweak ts1 e1 tweak_name True w))))))
           (PStr tweak_name) = 1
       \<and> applied_tweaks
             (snd (track_tweak ts2 e2 tweak_name True (snd (track_tweak ts1 e1 tweak_name True w))))
           = applied_tweaks (snd (track_tweak ts1 e1 tweak_name True w))
       \<and> tweak_history
             (snd (track_tweak ts2 e2 tweak_name True (snd (track_tweak ts1 e1 tweak_name True w))))
           = PList (h @
               [PDict [(''tweak'', PStr tweak_name), (''timestamp'', PStr ts1),
                       (''success'', PBool True)],
                PDict [(''tweak'', PStr tweak_name), (''timestamp'', PStr ts2),
                       (''success'', PBool True)]])"
proof -
  let ?s = "py_set_add (PStr tweak_name) (applied_tweaks w)"
  have k: "PStr tweak_name \<in> set (map py_key ?s)"
    by (simp add: py_set_add_def)
  have d: "distinct (map py_key ?s)"
    using assms(1) by (auto simp: py_set_add_def pyset_inv_def)
  have c: "count_list (map py_key ?s) (PStr tweak_name) = 1"
    using d k by (rule count_list_distinct)
  have i: "py_set_add (PStr tweak_name) ?s = ?s"
    using k by (simp add: py_set_add_def)
  show ?thesis
    using assms(2) c i
    by (simp add: track_tweak_def save_tweaks_def py_write_def history_entry_def Let_def)
qed

theorem track_twice_witness:
  "pyset_inv (applied_tweaks init_world) \<and> tweak_history init_world = PList []
   \<and> count_list (map py_key (applied_tweaks
         (snd (track_tweak ''t2'' env0 ''disable_telemetry'' True
            (snd (track_tweak ''t1'' env0 ''disable_telemetry'' True init_world))))))
       (PStr ''disable_telemetry'') = 1
   \<and> tweak_history
         (snd (track_tweak ''t2'' env0 ''disable_telemetry'' True
            (snd (track_tweak ''t1'' env0 ''disable_telemetry'' True init_world))))
       = PList [PDict [(''tweak'', PStr ''disable_telemetry''), (''timestamp'', PStr ''t1''),
                       (''success'', PBool True)],
                PDict [(''tweak'', PStr ''disable_telemetry''), (''timestamp'', PStr ''t2''),
                       (''success'', PBool True)]]"
proof -
  have h1: "pyset_inv (applied_tweaks init_world)"
    by (simp add: init_world_def pyset_inv_def)
  have h2: "tweak_history init_world = PList []"
    by (simp add: init_world_def)
  show ?thesis
    using h1 h2 track_twice [OF h1 h2, of "''t1''" env0 "''disable_telemetry''" "''t2''" env0]
    unfolding append_Nil by blast
qed

text \<open>
  C7 as stated fails on a ledger the code can reach: a file with a string as
  \<^verbatim>\<open>tweak_history\<close> loads with success, and then both calls raise AttributeError
  at \<^verbatim>\<open>append\<close> and the history gains no entry.
\<close>

theorem track_twice_counterexample:
  "load_saved_tweaks wrong_history_file_world = (True, wrong_history_world)
   \<and> tweak_history wrong_history_world = PStr ''oops''
   \<and> fst (track_tweak ''t1'' env0 ''disable_telemetry'' True wrong_history_world)
       = Some AttributeError
   \<and> fst (track_tweak ''t2'' env0 ''disable_telemetry'' True
         (snd (track_tweak ''t1'' env0 ''disable_telemetry'' True wrong_history_world)))
       = Some AttributeError
   \<and> tweak_history (snd (track_tweak ''t2'' env0 ''disable_telemetry'' True
         (snd (track_tweak ''t1'' env0 ''disable_telemetry'' True wrong_history_world))))
       = PStr ''oops''"
proof -
  have b: "load_saved_tweaks wrong_history_file_world = (True, wrong_history_world)"
    by (simp add: wrong_history_world_def wrong_history_world_eq)
  have c: "tweak_history wrong_history_world = PStr ''oops''
   \<and> fst (track_tweak ''t1'' env0 ''disable_telemetry'' True wrong_history_world)
       = Some AttributeError
   \<and> fst (track_tweak ''t2'' env0 ''disable_telemetry'' True
         (snd (track_tweak ''t1'' env0 ''disable_telemetry'' True wrong_history_world)))
       = Some AttributeError
   \<and> tweak_history (snd (track_tweak ''t2'' env0 ''disable_telemetry'' True
         (snd (track_tweak ''t1'' env0 ''disable_telemetry'' True wrong_history_world))))
       = PStr ''oops''"
    by (simp add: wrong_history_world_val track_tweak_def Let_def)
  show ?thesis
    using b c by blast
qed

text \<open>
  C9. \<^verbatim>\<open>track_tweak(name, False)\<close> returns without an exception and changes nothing:
  the five ledger attributes and every file are as before, so nothing was saved.
\<close>

theorem track_false_noop: "track_tweak ts e tweak_name False w = (None, w)"
  by (simp add: track_tweak_def)

section \<open>Loading\<close>

text \<open>
  C4, as the code has it. \<^verbatim>\<open>load_saved_tweaks\<close> has no exception among its results,
  and what it does is fixed by the file:
  \<^item> a missing file, a file that cannot be opened, text that is not JSON, a document that
    is not an object, an \<^verbatim>\<open>applied_tweaks\<close> that is not iterable or has an unhashable
    member: the load fails and the whole state is as before;
  \<^item> an object whose \<^verbatim>\<open>applied_tweaks\<close> converts and whose \<^verbatim>\<open>last_resolution\<close> is
    present but not iterable: the load fails with \<^verbatim>\<open>applied_tweaks\<close>,
    \<^verbatim>\<open>tweak_history\<close> and \<^verbatim>\<open>current_profile\<close> already taken from the file;
  \<^item> every other object, fields of unexpected types included: the load succeeds and
    stores the five fields as the file has them (defaults for absent ones).
  A failed load never changes \<^verbatim>\<open>last_resolution\<close>, \<^verbatim>\<open>last_refresh_rate\<close> or a file.
\<close>

theorem load_fails_soft:
  "(files w tweaks_file = None \<longrightarrow> load_saved_tweaks w = (False, w))
   \<and> (denied w tweaks_file \<longrightarrow> load_saved_tweaks w = (False, w))
   \<and> (files w tweaks_file = Some Unparseable \<longrightarrow> load_saved_tweaks w = (False, w))
   \<and> (files w tweaks_file = Some (Doc v) \<and> \<not> is_dict v \<longrightarrow> load_saved_tweaks w = (False, w))
   \<and> (files w tweaks_file = Some (Doc (PDict d))
        \<and> isl (py_iter (dict_get d ''applied_tweaks'' (PList [])))
      \<longrightarrow> load_saved_tweaks w = (False, w))
   \<and> (files w tweaks_file = Some (Doc (PDict d))
        \<and> dict_get d ''applied_tweaks'' (PList []) = PList xs \<and> \<not> list_all hashable xs
      \<longrightarrow> load_saved_tweaks w = (False, w))
   \<and> (files w tweaks_file = Some (Doc (PDict d)) \<and> \<not> denied w tweaks_file
        \<and> py_set (dict_get d ''applied_tweaks'' (PList [])) = Inr s
        \<and> map_of d ''last_resolution'' = Some r \<and> isl (py_iter r)
      \<longrightarrow> load_saved_tweaks w
            = (False, w\<lparr>applied_tweaks := s,
                 tweak_history := dict_get d ''tweak_history'' (PList []),
                 current_profile := dict_get d ''current_profile'' PNone\<rparr>))
   \<and> (files w tweaks_file = Some (Doc (PDict d)) \<and> \<not> denied w tweaks_file
        \<and> py_set (dict_get d ''applied_tweaks'' (PList [])) = Inr s
        \<and> (case map_of d ''last_resolution'' of
              None \<Rightarrow> Inr [PInt 1920, PInt 1080] | Some r \<Rightarrow> py_iter r) = Inr t
      \<longrightarrow> load_saved_tweaks w
            = (True, w\<lparr>applied_tweaks := s,
                 tweak_history := dict_get d ''tweak_history'' (PList []),
                 current_profile := dict_get d ''current_profile'' PNone,
                 last_resolution := t,
                 last_refresh_rate := dict_get d ''last_refresh_rate'' (PInt 60)\<rparr>))
   \<and> (\<not> fst (load_saved_tweaks w)
      \<longrightarrow> last_resolution (snd (load_saved_tweaks w)) = last_resolution w
        \<and> last_refresh_rate (snd (load_saved_tweaks w)) = last_refresh_rate w
        \<and> files (snd (load_saved_tweaks w)) = files w)"
proof (intro conjI impI)
  assume "files w tweaks_file = None"
  then show "load_saved_tweaks w = (False, w)"
    by (simp add: load_saved_tweaks_def)
next
  assume "denied w tweaks_file"
  then show "load_saved_tweaks w = (False, w)"
    by (simp add: load_saved_tweaks_def py_read_def split: option.splits)
next
  assume "files w tweaks_file = Some Unparseable"
  then show "load_saved_tweaks w = (False, w)"
    by (simp add: load_saved_tweaks_def py_read_def)
next
  assume "files w tweaks_file = Some (Doc v) \<and> \<not> is_dict v"
  then show "load_saved_tweaks w = (False, w)"
    by (cases v) (simp_all add: load_saved_tweaks_def py_read_def)
next
  assume a: "files w tweaks_file = Some (Doc (PDict d))
        \<and> isl (py_iter (dict_get d ''applied_tweaks'' (PList [])))"
  then have "isl (py_set (dict_get d ''applied_tweaks'' (PList [])))"
    by (simp add: py_set_not_iterable)
  with a show "load_saved_tweaks w = (False, w)"
    by (auto simp: load_saved_tweaks_def py_read_def split: sum.splits)
next
  assume a: "files w tweaks_file = Some (Doc (PDict d))
        \<and> dict_get d ''applied_tweaks'' (PList []) = PList xs \<and> \<not> list_all hashable xs"
  then have "py_set (dict_get d ''applied_tweaks'' (PList [])) = Inl TypeError"
    by (simp add: py_set_unhashable)
  with a show "load_saved_tweaks w = (False, w)"
    by (simp add: load_saved_tweaks_def py_read_def)
next
  assume "files w tweaks_file = Some (Doc (PDict d)) \<and> \<not> denied w tweaks_file
        \<and> py_set (dict_get d ''applied_tweaks'' (PList [])) = Inr s
        \<and> map_of d ''last_resolution'' = Some r \<and> isl (py_iter r)"
  then show "load_saved_tweaks w
            = (False, w\<lparr>applied_tweaks := s,
                 tweak_history := dict_get d ''tweak_history'' (PList []),
                 current_profile := dict_get d ''current_profile'' PNone\<rparr>)"
    by (auto simp: load_saved_tweaks_def py_read_def Let_def split: sum.splits)
next
  assume "files w tweaks_file = Some (Doc (PDict d)) \<and> \<not> denied w tweaks_file
        \<and> py_set (dict_get d ''applied_tweaks'' (PList [])) = Inr s
        \<and> (case map_of d ''last_resolution'' of
              None \<Rightarrow> Inr [PInt 1920, PInt 1080] | Some r \<Rightarrow> py_iter r) = Inr t"
  then show "load_saved_tweaks w
            = (True, w\<lparr>applied_tweaks := s,
                 tweak_history := dict_get d ''tweak_history'' (PList []),
                 current_profile := dict_get d ''current_profile'' PNone,
                 last_resolution := t,
                 last_refresh_rate := dict_get d ''last_refresh_rate'' (PInt 60)\<rparr>)"
    by (simp add: load_saved_tweaks_def py_read_def Let_def)
next
  assume a: "\<not> fst (load_saved_tweaks w)"
  then show "last_resolution (snd (load_saved_tweaks w)) = last_resolution w"
    by (auto simp: load_saved_tweaks_def Let_def
        split: if_splits sum.splits pyval.splits option.splits)
  from a show "last_refresh_rate (snd (load_saved_tweaks w)) = last_refresh_rate w"
    by (auto simp: load_saved_tweaks_def Let_def
        split: if_splits sum.splits pyval.splits option.splits)
  from a show "files (snd (load_saved_tweaks w)) = files w"
    by (auto simp: load_saved_tweaks_def Let_def
        split: if_splits sum.splits pyval.splits option.splits)
qed

text \<open>One file for each case.\<close>

theorem load_fails_soft_witness:
  "files init_world tweaks_file = None
   \<and> load_saved_tweaks init_world = (False, init_world)
   \<and> denied locked_world tweaks_file
   \<and> load_saved_tweaks locked_world = (False, locked_world)
   \<and> files unparseable_world tweaks_file = Some Unparseable
   \<and> load_saved_tweaks unparseable_world = (False, unparseable_world)
   \<and> files non_object_world tweaks_file = Some (Doc (PList [])) \<and> \<not> is_dict (PList [])
   \<and> load_saved_tweaks non_object_world = (False, non_object_world)
   \<and> isl (py_iter (PInt 5))
   \<and> load_saved_tweaks not_iterable_world = (False, not_iterable_world)
   \<and> \<not> list_all hashable [PList [PStr ''A'']]
   \<and> load_saved_tweaks unhashable_world = (False, unhashable_world)
   \<and> isl (py_iter (PInt 5))
   \<and> load_saved_tweaks bad_resolution_world
       = (False, bad_resolution_world\<lparr>applied_tweaks := [PStr ''A''],
            tweak_history := PList [], current_profile := PNone\<rparr>)
   \<and> load_saved_tweaks wrong_history_file_world
       = (True, wrong_history_file_world\<lparr>applied_tweaks := [PStr ''A''],
            tweak_history := PStr ''oops'', current_profile := PNone,
            last_resolution := [PInt 1920, PInt 1080], last_refresh_rate := PInt 60\<rparr>)
   \<and> \<not> fst (load_saved_tweaks bad_resolution_world)
   \<and> last_resolution (snd (load_saved_tweaks bad_resolution_world)) = [PInt 1920, PInt 1080]"
proof -
  have a1: "files init_world tweaks_file = None"
    by (simp add: init_world_def no_files_def)
  have c1: "load_saved_tweaks init_world = (False, init_world)"
    using a1 load_fails_soft [where w = init_world] by blast
  have a2: "denied locked_world tweaks_file"
    by (simp add: locked_world_def only_tweaks_file_denied_def)
  have c2: "load_saved_tweaks locked_world = (False, locked_world)"
    using a2 load_fails_soft [where w = locked_world] by blast
  have a3: "files unparseable_world tweaks_file = Some Unparseable"
    by (simp add: unparseable_world_def)
  have c3: "load_saved_tweaks unparseable_world = (False, unparseable_world)"
    using a3 load_fails_soft [where w = unparseable_world] by blast
  have a4: "files non_object_world tweaks_file = Some (Doc (PList [])) \<and> \<not> is_dict (PList [])"
    by (simp add: non_object_world_def)
  have c4: "load_saved_tweaks non_object_world = (False, non_object_world)"
    using a4 load_fails_soft [where w = non_object_world and v = "PList []"] by blast
  have i5: "isl (py_iter (PInt 5))"
    by simp
  have a5: "files not_iterable_world tweaks_file = Some (Doc (PDict [(''applied_tweaks'', PInt 5)]))
        \<and> isl (py_iter (dict_get [(''applied_tweaks'', PInt 5)] ''applied_tweaks'' (PList [])))"
    by (simp add: not_iterable_world_def dict_get_def)
  have c5: "load_saved_tweaks not_iterable_world = (False, not_iterable_world)"
    using a5 load_fails_soft [where w = not_iterable_world and d = "[(''applied_tweaks'', PInt 5)]"]
    by blast
  have u6: "\<not> list_all hashable [PList [PStr ''A'']]"
    by simp
  have a6: "files unhashable_world tweaks_file
          = Some (Doc (PDict [(''applied_tweaks'', PList [PList [PStr ''A'']])]))
        \<and> dict_get [(''applied_tweaks'', PList [PList [PStr ''A'']])] ''applied_tweaks'' (PList [])
          = PList [PList [PStr ''A'']]
        \<and> \<not> list_all hashable [PList [PStr ''A'']]"
    by (simp add: unhashable_world_def dict_get_def)
  have c6: "load_saved_tweaks unhashable_world = (False, unhashable_world)"
    using a6 load_fails_soft [where w = unhashable_world
        and d = "[(''applied_tweaks'', PList [PList [PStr ''A'']])]"
        and xs = "[PList [PStr ''A'']]"]
    by blast
  let ?d7 = "[(''applied_tweaks'', PList [PStr ''A'']), (''last_resolution'', PInt 5)]"
  have a7: "files bad_resolution_world tweaks_file = Some (Doc (PDict ?d7))
        \<and> \<not> denied bad_resolution_world tweaks_file
        \<and> py_set (dict_get ?d7 ''applied_tweaks'' (PList [])) = Inr [PStr ''A'']
        \<and> map_of ?d7 ''last_resolution'' = Some (PInt 5) \<and> isl (py_iter (PInt 5))"
    by (simp add: bad_resolution_world_def init_world_def nothing_denied_def dict_get_def
        py_set_def py_set_add_def)
  have g7: "dict_get ?d7 ''tweak_history'' (PList []) = PList []"
    "dict_get ?d7 ''current_profile'' PNone = PNone"
    by (simp_all add: dict_get_def)
  have c7: "load_saved_tweaks bad_resolution_world
       = (False, bad_resolution_world\<lparr>applied_tweaks := [PStr ''A''],
            tweak_history := PList [], current_profile := PNone\<rparr>)"
    using a7 load_fails_soft [where w = bad_resolution_world and d = ?d7
        and s = "[PStr ''A'']" and r = "PInt 5"]
    unfolding g7 by blast
  let ?d8 = "[(''applied_tweaks'', PList [PStr ''A'']), (''tweak_history'', PStr ''oops'')]"
  have a8: "files wrong_history_file_world tweaks_file = Some (Doc (PDict ?d8))
        \<and> \<not> denied wrong_history_file_world tweaks_file
        \<and> py_set (dict_get ?d8 ''applied_tweaks'' (PList [])) = Inr [PStr ''A'']
        \<and> (case map_of ?d8 ''last_resolution'' of
              None \<Rightarrow> Inr [PInt 1920, PInt 1080] | Some r \<Rightarrow> py_iter r)
            = Inr [PInt 1920, PInt 1080]"
    by (simp add: wrong_history_file_world_def init_world_def nothing_denied_def dict_get_def
        py_set_def py_set_add_def)
  have g8: "dict_get ?d8 ''tweak_history'' (PList []) = PStr ''oops''"
    "dict_get ?d8 ''current_profile'' PNone = PNone"
    "dict_get ?d8 ''last_refresh_rate'' (PInt 60) = PInt 60"
    by (simp_all add: dict_get_def)
  have c8: "load_saved_tweaks wrong_history_file_world
       = (True, wrong_history_file_world\<lparr>applied_tweaks := [PStr ''A''],
            tweak_history := PStr ''oops'', current_profile := PNone,
            last_resolution := [PInt 1920, PInt 1080], last_refresh_rate := PInt 60\<rparr>)"
    using a8 load_fails_soft [where w = wrong_history_file_world and d = ?d8
        and s = "[PStr ''A'']" and t = "[PInt 1920, PInt 1080]"]
    unfolding g8 by blast
  have a9: "\<not> fst (load_saved_tweaks bad_resolution_world)"
    using c7 by simp
  have p9: "last_resolution bad_resolution_world = [PInt 1920, PInt 1080]"
    by (simp add: bad_resolution_world_def init_world_def)
  have c9: "last_resolution (snd (load_saved_tweaks bad_resolution_world)) = [PInt 1920, PInt 1080]"
    using a9 p9 load_fails_soft [where w = bad_resolution_world] by metis
  show ?thesis
    using a1 c1 a2 c2 a3 c3 a4 c4 i5 c5 u6 c6 c7 c8 a9 c9 by blast
qed

text \<open>
  C4 as stated fails twice: on a file whose \<^verbatim>\<open>last_resolution\<close> is the number 5
  the load fails and the applied set, empty before, holds the file's \<^verbatim>\<open>"A"\<close>
  afterwards; on a file whose \<^verbatim>\<open>tweak_history\<close> is a string the load succeeds and
  the history is that string.
\<close>

theorem load_counterexample:
  "load_saved_tweaks bad_resolution_world
     = (False, bad_resolution_world\<lparr>applied_tweaks := [PStr ''A'']\<rparr>)
   \<and> applied_tweaks bad_resolution_world = []
   \<and> ledger (snd (load_saved_tweaks bad_resolution_world)) \<noteq> ledger bad_resolution_world
   \<and> fst (load_saved_tweaks wrong_history_file_world)
   \<and> tweak_history wrong_history_file_world = PList []
   \<and> tweak_history (snd (load_saved_tweaks wrong_history_file_world)) = PStr ''oops''
   \<and> ledger (snd (load_saved_tweaks wrong_history_file_world)) \<noteq> ledger wrong_history_file_world"
  by (simp add: load_saved_tweaks_def bad_resolution_world_def wrong_history_file_world_def
      init_world_def py_read_def nothing_denied_def dict_get_def py_set_def py_set_add_def
      ledger_def)

section \<open>Import and export\<close>

text \<open>
  C5. For a readable import file that is a JSON object whose \<^verbatim>\<open>applied_tweaks\<close> is a
  list of hashable values (absent: the empty list), \<^verbatim>\<open>import_tweaks\<close> succeeds; the
  applied set becomes the set of the file's list, whatever it held before, the history
  and the profile become the file's (absent: empty list and \<^verbatim>\<open>None\<close>); the final
  state is the one \<^verbatim>\<open>save_tweaks\<close> leaves on this new ledger. Where the persistence
  file can be written, its \<^verbatim>\<open>applied_tweaks\<close>, \<^verbatim>\<open>tweak_history\<close> and
  \<^verbatim>\<open>current_profile\<close> fields are the imported ones, and a later
  \<^verbatim>\<open>load_saved_tweaks\<close> of it, in any process, recovers the imported state.
\<close>

theorem import_replaces:
  assumes "py_read filename w = Inr (PDict d)"
    and "dict_get d ''applied_tweaks'' (PList []) = PList xs"
    and "list_all hashable xs"
  shows "import_tweaks e filename w
           = (True, snd (save_tweaks e (w\<lparr>applied_tweaks := fold py_set_add xs [],
                tweak_history := dict_get d ''tweak_history'' (PList []),
                current_profile := dict_get d ''current_profile'' PNone\<rparr>)))
       \<and> applied_tweaks (snd (import_tweaks e filename w)) = fold py_set_add xs []
       \<and> set (map py_key (applied_tweaks (snd (import_tweaks e filename w)))) = set (map py_key xs)
       \<and> tweak_history (snd (import_tweaks e filename w)) = dict_get d ''tweak_history'' (PList [])
       \<and> current_profile (snd (import_tweaks e filename w)) = dict_get d ''current_profile'' PNone
       \<and> (\<not> denied w tweaks_file \<longrightarrow>
            files (snd (import_tweaks e filename w)) tweaks_file
              = Some (Doc (PDict (save_data e (snd (import_tweaks e filename w)))))
          \<and> doc_field (files (snd (import_tweaks e filename w)) tweaks_file) ''applied_tweaks''
              = Some (PList (fold py_set_add xs []))
          \<and> doc_field (files (snd (import_tweaks e filename w)) tweaks_file) ''tweak_history''
              = Some (dict_get d ''tweak_history'' (PList []))
          \<and> doc_field (files (snd (import_tweaks e filename w)) tweaks_file) ''current_profile''
              = Some (dict_get d ''current_profile'' PNone))
       \<and> (\<not> denied w tweaks_file
            \<and> files v tweaks_file = files (snd (import_tweaks e filename w)) tweaks_file
            \<and> \<not> denied v tweaks_file \<longrightarrow>
            fst (load_saved_tweaks v)
          \<and> applied_tweaks (snd (load_saved_tweaks v)) = fold py_set_add xs []
          \<and> tweak_history (snd (load_saved_tweaks v)) = dict_get d ''tweak_history'' (PList [])
          \<and> current_profile (snd (load_saved_tweaks v)) = dict_get d ''current_profile'' PNone)"
proof -
  let ?w3 = "w\<lparr>applied_tweaks := fold py_set_add xs [],
                tweak_history := dict_get d ''tweak_history'' (PList []),
                current_profile := dict_get d ''current_profile'' PNone\<rparr>"
  have s: "py_set (dict_get d ''applied_tweaks'' (PList [])) = Inr (fold py_set_add xs [])"
    using assms(2,3) by (simp add: py_set_def set_of_list_fold)
  have k: "set (map py_key (fold py_set_add xs [])) = set (map py_key xs)"
    using fold_add_keys [of xs "[]"] by simp
  have i: "import_tweaks e filename w = (True, snd (save_tweaks e ?w3))"
    by (simp add: import_tweaks_def assms(1) s Let_def)
  have inv: "pyset_inv (applied_tweaks ?w3)"
    using fold_add_inv [of "[]" xs] assms(3) by (simp add: pyset_inv_def)
  have f: "files (snd (save_tweaks e ?w3)) tweaks_file = Some (Doc (PDict (save_data e ?w3)))"
    if "\<not> denied w tweaks_file"
    using that by (simp add: save_tweaks_def py_write_def)
  have sd: "save_data e (snd (save_tweaks e ?w3)) = save_data e ?w3"
    by (simp add: save_tweaks_def py_write_def save_data_def)
  have l: "load_saved_tweaks v
           = (True, v\<lparr>applied_tweaks := applied_tweaks ?w3, tweak_history := tweak_history ?w3,
                current_profile := current_profile ?w3, last_resolution := last_resolution ?w3,
                last_refresh_rate := last_refresh_rate ?w3\<rparr>)"
    if "\<not> denied w tweaks_file"
      and "files v tweaks_file = files (snd (import_tweaks e filename w)) tweaks_file"
      and "\<not> denied v tweaks_file"
    using that f i inv load_saved_file [of v e ?w3] by simp
  show ?thesis
    using k f l
    by (simp add: i sd doc_field_def save_tweaks_def py_write_def save_data_def)
qed

text \<open>
  Importing \<^verbatim>\<open>applied = {"A"}\<close> into a ledger with \<^verbatim>\<open>applied = {"B"}\<close>, then
  loading the persistence file in a new process.
\<close>

theorem import_replaces_witness:
  "py_read ''backup.json'' import_source = Inr (PDict import_doc)
   \<and> dict_get import_doc ''applied_tweaks'' (PList []) = PList [PStr ''A'']
   \<and> list_all hashable [PStr ''A'']
   \<and> applied_tweaks import_source = [PStr ''B'']
   \<and> applied_tweaks (snd (import_tweaks env0 ''backup.json'' import_source)) = [PStr ''A'']
   \<and> \<not> denied import_source tweaks_file
   \<and> doc_field (files (snd (import_tweaks env0 ''backup.json'' import_source)) tweaks_file)
        ''applied_tweaks'' = Some (PList [PStr ''A''])
   \<and> files restarted_after_import tweaks_file
       = files (snd (import_tweaks env0 ''backup.json'' import_source)) tweaks_file
   \<and> \<not> denied restarted_after_import tweaks_file
   \<and> applied_tweaks restarted_after_import = []
   \<and> fst (load_saved_tweaks restarted_after_import)
   \<and> applied_tweaks (snd (load_saved_tweaks restarted_after_import)) = [PStr ''A'']"
proof -
  have h1: "py_read ''backup.json'' import_source = Inr (PDict import_doc)"
    by (simp add: py_read_def import_source_def init_world_def nothing_denied_def)
  have h2: "dict_get import_doc ''applied_tweaks'' (PList []) = PList [PStr ''A'']"
    by (simp add: dict_get_def import_doc_def)
  have h3: "list_all hashable [PStr ''A'']"
    by simp
  have h4: "\<not> denied import_source tweaks_file"
    by (simp add: import_source_def init_world_def nothing_denied_def)
  have h5: "applied_tweaks import_source = [PStr ''B'']"
    by (simp add: import_source_def)
  have h6: "files restarted_after_import tweaks_file
       = files (snd (import_tweaks env0 ''backup.json'' import_source)) tweaks_file"
    by (simp add: restarted_after_import_def imported_world_def)
  have h7: "\<not> denied restarted_after_import tweaks_file"
    by (simp add: restarted_after_import_def init_world_def nothing_denied_def)
  have h8: "applied_tweaks restarted_after_import = []"
    by (simp add: restarted_after_import_def init_world_def)
  have f: "fold py_set_add [PStr ''A''] [] = [PStr ''A'']"
    by (simp add: py_set_add_def)
  show ?thesis
    using h1 h2 h3 h4 h5 h6 h7 h8
      import_replaces [OF h1 h2 h3, where e = env0 and v = restarted_after_import]
    unfolding f by blast
qed

text \<open>
  C8. After a successful \<^verbatim>\<open>export_tweaks\<close>, \<^verbatim>\<open>import_tweaks\<close> of the exported file
  (into the same ledger or into any other, a fresh one included) succeeds and leaves
  exactly the exported applied set in the ledger; history and profile come along.
\<close>

theorem export_import:
  assumes "pyset_inv (applied_tweaks w)"
    and "export_tweaks e1 filename w = (True, w1)"
    and "files v (export_name e1 filename) = files w1 (export_name e1 filename)"
    and "\<not> denied v (export_name e1 filename)"
  shows "fst (import_tweaks e2 (export_name e1 filename) v)
       \<and> applied_tweaks (snd (import_tweaks e2 (export_name e1 filename) v)) = applied_tweaks w
       \<and> tweak_history (snd (import_tweaks e2 (export_name e1 filename) v)) = tweak_history w
       \<and> current_profile (snd (import_tweaks e2 (export_name e1 filename) v)) = current_profile w"
proof -
  from assms(2) have "files w1 (export_name e1 filename) = Some (Doc (PDict (export_data e1 w)))"
    by (auto simp: export_tweaks_def py_write_def split: if_splits)
  with assms(3,4) have r: "py_read (export_name e1 filename) v = Inr (PDict (export_data e1 w))"
    by (simp add: py_read_def)
  have a: "py_set (dict_get (export_data e1 w) ''applied_tweaks'' (PList [])) = Inr (applied_tweaks w)"
    using assms(1) by (simp add: export_data_def dict_get_def py_set_of_set)
  have g: "dict_get (export_data e1 w) ''tweak_history'' (PList []) = tweak_history w"
    "dict_get (export_data e1 w) ''current_profile'' PNone = current_profile w"
    by (simp_all add: export_data_def dict_get_def)
  show ?thesis
    by (simp add: import_tweaks_def r a g save_tweaks_def py_write_def Let_def)
qed

text \<open>Export to \<^verbatim>\<open>backup.json\<close>, then import on a fresh ledger.\<close>

theorem export_import_witness:
  "pyset_inv (applied_tweaks tracked_world)
   \<and> export_tweaks env0 (Some ''backup.json'') tracked_world = (True, exported_world)
   \<and> files fresh_with_backup (export_name env0 (Some ''backup.json''))
       = files exported_world (export_name env0 (Some ''backup.json''))
   \<and> \<not> denied fresh_with_backup (export_name env0 (Some ''backup.json''))
   \<and> applied_tweaks fresh_with_backup = []
   \<and> applied_tweaks (snd (import_tweaks env0 ''backup.json'' fresh_with_backup))
       = [PStr ''disable_telemetry'']"
proof -
  have h2: "export_tweaks env0 (Some ''backup.json'') tracked_world = (True, exported_world)"
    by (simp add: exported_world_def export_tweaks_def py_write_def tracked_world_eq
        init_world_def nothing_denied_def)
  have h3: "files fresh_with_backup (export_name env0 (Some ''backup.json''))
       = files exported_world (export_name env0 (Some ''backup.json''))"
    by (simp add: fresh_with_backup_def)
  have h4: "\<not> denied fresh_with_backup (export_name env0 (Some ''backup.json''))"
    by (simp add: fresh_with_backup_def init_world_def nothing_denied_def)
  have n: "export_name env0 (Some ''backup.json'') = ''backup.json''"
    by (simp add: export_name_def)
  have a: "applied_tweaks tracked_world = [PStr ''disable_telemetry'']"
    by (simp add: tracked_world_eq)
  have b: "applied_tweaks fresh_with_backup = []"
    by (simp add: fresh_with_backup_def init_world_def)
  show ?thesis
    using tracked_world_inv h2 h3 h4 b export_import [OF tracked_world_inv h2 h3 h4, of env0]
    unfolding n a by blast
qed

text \<open>
  C10. \<^verbatim>\<open>import_tweaks\<close> never touches \<^verbatim>\<open>last_resolution\<close> and
  \<^verbatim>\<open>last_refresh_rate\<close>: whatever the file holds, and whether the import succeeds or
  fails, both keep their prior values.
\<close>

theorem import_keeps_display_settings:
  "last_resolution (snd (import_tweaks e filename w)) = last_resolution w
   \<and> last_refresh_rate (snd (import_tweaks e filename w)) = last_refresh_rate w"
  by (simp add: import_tweaks_def save_tweaks_def py_write_def Let_def
      split: sum.split pyval.split)

text \<open>
  The imported file asks for 800 by 600 at 144; the ledger stays at 1920 by 1080 at 60
  while its applied set is replaced.
\<close>

theorem import_keeps_display_settings_witness:
  "map_of import_doc ''last_resolution'' = Some (PList [PInt 800, PInt 600])
   \<and> map_of import_doc ''last_refresh_rate'' = Some (PInt 144)
   \<and> fst (import_tweaks env0 ''backup.json'' import_source)
   \<and> last_resolution (snd (import_tweaks env0 ''backup.json'' import_source))
       = [PInt 1920, PInt 1080]
   \<and> last_refresh_rate (snd (import_tweaks env0 ''backup.json'' import_source)) = PInt 60"
proof -
  have d: "map_of import_doc ''last_resolution'' = Some (PList [PInt 800, PInt 600])"
    "map_of import_doc ''last_refresh_rate'' = Some (PInt 144)"
    by (simp_all add: import_doc_def)
  have r: "py_read ''backup.json'' import_source = Inr (PDict import_doc)"
    by (simp add: py_read_def import_source_def init_world_def nothing_denied_def)
  have s: "py_set (dict_get import_doc ''applied_tweaks'' (PList [])) = Inr [PStr ''A'']"
    by (simp add: dict_get_def import_doc_def py_set_def py_set_add_def)
  have ok: "fst (import_tweaks env0 ''backup.json'' import_source)"
    by (simp add: import_tweaks_def r s Let_def)
  have p: "last_resolution import_source = [PInt 1920, PInt 1080]"
    "last_refresh_rate import_source = PInt 60"
    by (simp_all add: import_source_def init_world_def)
  show ?thesis
    using d ok p import_keeps_display_settings [of env0 "''backup.json''" import_source]
    by simp
qed

section \<open>Clearing\<close>




end
